theory Spec2Isabelle
  imports Main "HOL-Library.Multiset"
begin

section \<open>Values handled by the position endpoints of main.py\<close>

text \<open>
  The handlers of main.py move JSON values around: the body of a request, the body of
  the geocoder's reply, the fields of a stored document. Numbers are kept abstract
  (type \<open>'n\<close>): the code never computes with them, it only formats them in f-strings and
  tests their truth value.
\<close>

datatype 'n json =
    JNull
  | JBool bool
  | JNum 'n
  | JStr string
  | JList "'n json list"
  | JObj "(string \<times> 'n json) list"

text \<open>
  What the code uses of Python and of the store's driver and does not define:
  \<open>str_of\<close> is the text an f-string produces for a value (\<open>f"{x}"\<close>), \<open>nonzero\<close> the
  truth value of a number, and \<open>bson_number\<close> tells whether the driver can encode a
  number in a document (every float, and an integer that fits in 64 bits).
\<close>

record 'n builtins =
  str_of :: "'n json \<Rightarrow> string"
  nonzero :: "'n \<Rightarrow> bool"
  bson_number :: "'n \<Rightarrow> bool"

text \<open>Python's truth value of a JSON value, as \<open>not x\<close> and \<open>x or y\<close> test it.\<close>

fun truthy :: "'n builtins \<Rightarrow> 'n json \<Rightarrow> bool" where
  "truthy py JNull = False"
| "truthy py (JBool b) = b"
| "truthy py (JNum n) = nonzero py n"
| "truthy py (JStr s) = (s \<noteq> [])"
| "truthy py (JList xs) = (xs \<noteq> [])"
| "truthy py (JObj kvs) = (kvs \<noteq> [])"

text \<open>\<open>a or b\<close>: the left operand when it is truthy, the right one otherwise.\<close>

definition py_or :: "'n builtins \<Rightarrow> 'n json \<Rightarrow> 'n json \<Rightarrow> 'n json" where
  "py_or py a b = (if truthy py a then a else b)"

text \<open>\<open>d.get(k)\<close> on a dict: the value, or None when the key is absent.\<close>

definition dict_get :: "(string \<times> 'n json) list \<Rightarrow> string \<Rightarrow> 'n json" where
  "dict_get d k = (case map_of d k of None \<Rightarrow> JNull | Some v \<Rightarrow> v)"

datatype exn = JSONDecodeError | TypeError | AttributeError | IndexError | OverflowError

text \<open>
  Whether the driver can encode a value: it raises OverflowError (\<open>MongoDB can only
  handle up to 8-byte ints\<close>) on an integer outside 64 bits, wherever it stands in the
  value.
\<close>

fun encodable :: "'n builtins \<Rightarrow> 'n json \<Rightarrow> bool" where
  "encodable py (JNum n) = bson_number py n"
| "encodable py (JList xs) = list_all (encodable py) xs"
| "encodable py (JObj kvs) = list_all (\<lambda>kv. encodable py (snd kv)) kvs"
| "encodable py v = True"

section \<open>The geocoding call\<close>

text \<open>
  \<open>resp.json()\<close> is a call into the HTTP client library. It raises on a body that is
  not JSON (\<open>JsonRaises\<close>), or returns the parsed value itself (\<open>JsonValue\<close>: this is what
  \<open>httpx.Response.json\<close>, the method the handlers call, does: it is an ordinary
  method, not a coroutine), or returns an awaitable that yields the parsed value or
  raises when awaited (\<open>JsonAwaitable\<close>: only a test double of the response does so).
\<close>

datatype 'n json_call =
    JsonRaises
  | JsonValue "'n json"
  | JsonAwaitable "'n json option"

text \<open>
  \<open>await resp.json()\<close>, as both handlers write it. Awaiting a value that is not
  awaitable raises TypeError (\<open>object dict can't be used in 'await' expression\<close>).
\<close>

fun await_json :: "'n json_call \<Rightarrow> exn + 'n json" where
  "await_json JsonRaises = Inl JSONDecodeError"
| "await_json (JsonValue v) = Inl TypeError"
| "await_json (JsonAwaitable None) = Inl JSONDecodeError"
| "await_json (JsonAwaitable (Some v)) = Inr v"

text \<open>
  \<open>await client.get(url)\<close> either raises (timeout, transport failure) or returns a
  response with a status code. The world is a function from the client's timeout (in
  seconds) and the URL to that outcome.
\<close>

datatype 'n http_outcome =
    GetRaises
  | Response nat "'n json_call"

type_synonym 'n http_get = "nat \<Rightarrow> string \<Rightarrow> 'n http_outcome"

definition nominatim_url :: "'n builtins \<Rightarrow> 'n json \<Rightarrow> 'n json \<Rightarrow> string" where
  "nominatim_url py lat lon =
     ''https://nominatim.openstreetmap.org/reverse?format=jsonv2&lat='' @ str_of py lat
       @ ''&lon='' @ str_of py lon @ ''&accept-language=en''"

text \<open>The f-string \<open>f"{lat}, {lon}"\<close>.\<close>

definition coordinate_label :: "'n builtins \<Rightarrow> 'n json \<Rightarrow> 'n json \<Rightarrow> string" where
  "coordinate_label py lat lon = str_of py lat @ '', '' @ str_of py lon"

text \<open>
  Lines 74 to 95 of \<open>save_position\<close>: the value stored as \<open>live_location\<close>. A call of
  \<open>.get\<close> on a value that is not a dict raises AttributeError; every exception inside
  the \<open>try\<close> is caught by \<open>except Exception\<close>, which stores the coordinate label.
\<close>

definition save_position_live_location ::
  "'n builtins \<Rightarrow> 'n http_get \<Rightarrow> 'n json \<Rightarrow> 'n json \<Rightarrow> 'n json" where
  "save_position_live_location py http_get lat lon =
     (case http_get 10 (nominatim_url py lat lon) of
        GetRaises \<Rightarrow> JStr (coordinate_label py lat lon)
      | Response status_code body \<Rightarrow>
          if status_code = 200 then
            (case await_json body of
               Inl e \<Rightarrow> JStr (coordinate_label py lat lon)
             | Inr (JObj data) \<Rightarrow>
                 (case (case map_of data ''address'' of None \<Rightarrow> JObj [] | Some a \<Rightarrow> a) of
                    JObj address \<Rightarrow>
                      py_or py (dict_get address ''suburb'')
                     (py_or py (dict_get address ''village'')
                     (py_or py (dict_get address ''town'')
                     (py_or py (dict_get address ''city'')
                     (py_or py (dict_get address ''county'')
                     (py_or py (dict_get address ''state'')
                     (py_or py (dict_get data ''display_name'')
                        (JStr (coordinate_label py lat lon))))))))
                  | _ \<Rightarrow> JStr (coordinate_label py lat lon))
             | Inr _ \<Rightarrow> JStr (coordinate_label py lat lon))
          else JStr (coordinate_label py lat lon))"

text \<open>Lines 141 to 162 of \<open>get_latest_position\<close>: the same steps, with a timeout of 5.\<close>

definition get_latest_live_location ::
  "'n builtins \<Rightarrow> 'n http_get \<Rightarrow> 'n json \<Rightarrow> 'n json \<Rightarrow> 'n json" where
  "get_latest_live_location py http_get lat lon =
     (case http_get 5 (nominatim_url py lat lon) of
        GetRaises \<Rightarrow> JStr (coordinate_label py lat lon)
      | Response status_code body \<Rightarrow>
          if status_code = 200 then
            (case await_json body of
               Inl e \<Rightarrow> JStr (coordinate_label py lat lon)
             | Inr (JObj data) \<Rightarrow>
                 (case (case map_of data ''address'' of None \<Rightarrow> JObj [] | Some a \<Rightarrow> a) of
                    JObj address \<Rightarrow>
                      py_or py (dict_get address ''suburb'')
                     (py_or py (dict_get address ''village'')
                     (py_or py (dict_get address ''town'')
                     (py_or py (dict_get address ''city'')
                     (py_or py (dict_get address ''county'')
                     (py_or py (dict_get address ''state'')
                     (py_or py (dict_get data ''display_name'')
                        (JStr (coordinate_label py lat lon))))))))
                  | _ \<Rightarrow> JStr (coordinate_label py lat lon))
             | Inr _ \<Rightarrow> JStr (coordinate_label py lat lon))
          else JStr (coordinate_label py lat lon))"

section \<open>The position store and the four handlers\<close>

text \<open>
  A document of the collection \<open>vehicle_positions\<close>, with the keys the two write paths
  give it. \<open>live_location\<close> is the only key a document may lack. The \<open>_id\<close> the store
  assigns is the document's place in the collection.
\<close>

record 'n position_doc =
  vehicle_id :: "'n json"
  latitude :: "'n json"
  longitude :: "'n json"
  timestamp :: int
  live_location :: "'n json option"

type_synonym 'n store = "'n position_doc list"

text \<open>The pydantic model \<open>VehiclePosition\<close>, after validation.\<close>

record 'n VehiclePosition =
  vp_vehicle_id :: 'n
  vp_latitude :: 'n
  vp_longitude :: 'n
  vp_timestamp :: "int option"

datatype 'a reply =
    Ok200 'a
  | HTTPException nat string
  | Unhandled exn

text \<open>
  \<open>insert_one(doc)\<close>: the document is appended, unless the driver cannot encode one of
  its values; then the call raises and nothing is stored. No handler catches that.
\<close>

definition insert_one :: "'n builtins \<Rightarrow> 'n position_doc \<Rightarrow> 'n store \<Rightarrow> exn + 'n store" where
  "insert_one py doc store =
     (if encodable py (vehicle_id doc) \<and> encodable py (latitude doc)
         \<and> encodable py (longitude doc)
         \<and> (case live_location doc of None \<Rightarrow> True | Some v \<Rightarrow> encodable py v)
      then Inr (store @ [doc])
      else Inl OverflowError)"

text \<open>\<open>find({"vehicle_id": vehicle_id})\<close>: equality with the string of the path.\<close>

definition find_vehicle :: "string \<Rightarrow> 'n store \<Rightarrow> 'n position_doc list" where
  "find_vehicle vid store = filter (\<lambda>d. vehicle_id d = JStr vid) store"

text \<open>\<open>.sort("timestamp", -1)\<close>.\<close>

definition sort_timestamp_desc :: "'n position_doc list \<Rightarrow> 'n position_doc list" where
  "sort_timestamp_desc ds = sort_key (\<lambda>d. - timestamp d) ds"

text \<open>
  \<open>.limit(n)\<close> of the driver's cursor: 0 means no limit, and a negative number is
  sent to the server as its absolute value. The limit travels in the query as an
  integer, so one outside 64 bits cannot be encoded either.
\<close>

definition cursor_limit :: "int \<Rightarrow> 'a list \<Rightarrow> exn + 'a list" where
  "cursor_limit n ds =
     (if 2 ^ 63 \<le> \<bar>n\<bar> then Inl OverflowError
      else if n = 0 then Inr ds
      else Inr (take (nat \<bar>n\<bar>) ds))"

definition find_one_latest :: "string \<Rightarrow> 'n store \<Rightarrow> 'n position_doc option" where
  "find_one_latest vid store =
     (case sort_timestamp_desc (find_vehicle vid store) of [] \<Rightarrow> None | pos # _ \<Rightarrow> Some pos)"

text \<open>\<open>POST /positions/\<close>. \<open>now\<close> is \<open>datetime.utcnow()\<close>.\<close>

definition save_position ::
  "'n builtins \<Rightarrow> 'n http_get \<Rightarrow> int \<Rightarrow> 'n VehiclePosition \<Rightarrow> 'n store
     \<Rightarrow> string reply \<times> 'n store" where
  "save_position py http_get now position store =
     (let doc = \<lparr> vehicle_id = JNum (vp_vehicle_id position),
                  latitude = JNum (vp_latitude position),
                  longitude = JNum (vp_longitude position),
                  timestamp = (case vp_timestamp position of None \<Rightarrow> now | Some t \<Rightarrow> t),
                  live_location = None \<rparr>;
          doc = doc \<lparr> live_location :=
                  Some (save_position_live_location py http_get (latitude doc) (longitude doc)) \<rparr>
      in (case insert_one py doc store of
            Inl e \<Rightarrow> (Unhandled e, store)
          | Inr store' \<Rightarrow> (Ok200 ''Position saved successfully'', store')))"

text \<open>
  \<open>POST /positions/update/{vehicle_id}\<close>. \<open>body\<close> is what \<open>await request.json()\<close>
  yields, None when it raises.
\<close>

definition update_position ::
  "'n builtins \<Rightarrow> int \<Rightarrow> string \<Rightarrow> 'n json option \<Rightarrow> 'n store \<Rightarrow> string reply \<times> 'n store" where
  "update_position py now vid body store =
     (case body of
        None \<Rightarrow> (Unhandled JSONDecodeError, store)
      | Some (JObj data) \<Rightarrow>
          (let position = dict_get data ''position'' in
           if \<not> truthy py position
              \<or> (case position of JList xs \<Rightarrow> length xs \<noteq> 2 | _ \<Rightarrow> True)
           then (HTTPException 400 ''Invalid position format. Expected [lat, lon].'', store)
           else (case position of
                   JList (p0 # p1 # _) \<Rightarrow>
                     (case insert_one py
                             \<lparr> vehicle_id = JStr vid, latitude = p0, longitude = p1,
                               timestamp = now, live_location = None \<rparr> store of
                        Inl e \<Rightarrow> (Unhandled e, store)
                      | Inr store' \<Rightarrow> (Ok200 ''Position updated'', store'))
                 | _ \<Rightarrow> (Unhandled IndexError, store)))
      | Some _ \<Rightarrow> (Unhandled AttributeError, store))"

text \<open>\<open>GET /positions/{vehicle_id}\<close>, with the query parameter \<open>limit: int = 100\<close>.\<close>

definition get_positions ::
  "string \<Rightarrow> int option \<Rightarrow> 'n store \<Rightarrow> 'n position_doc list reply \<times> 'n store" where
  "get_positions vid limit store =
     (case cursor_limit (case limit of None \<Rightarrow> 100 | Some n \<Rightarrow> n)
             (sort_timestamp_desc (find_vehicle vid store)) of
        Inl e \<Rightarrow> (Unhandled e, store)
      | Inr positions \<Rightarrow> (Ok200 positions, store))"

text \<open>\<open>GET /positions/latest/{vehicle_id}\<close>.\<close>

definition get_latest_position ::
  "'n builtins \<Rightarrow> 'n http_get \<Rightarrow> string \<Rightarrow> 'n store \<Rightarrow> 'n position_doc reply \<times> 'n store" where
  "get_latest_position py http_get vid store =
     (case find_one_latest vid store of
        None \<Rightarrow> (HTTPException 404 ''No positions found for this vehicle'', store)
      | Some pos \<Rightarrow>
          (let live = (case live_location pos of None \<Rightarrow> JNull | Some v \<Rightarrow> v);
               live = (if \<not> truthy py live
                       then get_latest_live_location py http_get (latitude pos) (longitude pos)
                       else live)
           in (Ok200 (pos \<lparr> live_location := Some live \<rparr>), store)))"

section \<open>Vocabulary of the properties\<close>

text \<open>
  The outcomes of the geocoding call that count as a failure: the request raises (a
  timeout or a transport failure), the status is not 200, or the body is malformed (it
  is not JSON, or it is not an object, or its \<open>address\<close> is not an object).
\<close>

fun malformed :: "'n json \<Rightarrow> bool" where
  "malformed (JObj data) =
     (case map_of data ''address'' of
        None \<Rightarrow> False
      | Some (JObj address) \<Rightarrow> False
      | Some _ \<Rightarrow> True)"
| "malformed _ = True"

fun geocoding_failed :: "'n http_outcome \<Rightarrow> bool" where
  "geocoding_failed GetRaises = True"
| "geocoding_failed (Response st JsonRaises) = True"
| "geocoding_failed (Response st (JsonValue v)) = (st \<noteq> 200)"
| "geocoding_failed (Response st (JsonAwaitable None)) = True"
| "geocoding_failed (Response st (JsonAwaitable (Some v))) = (st \<noteq> 200 \<or> malformed v)"

text \<open>
  A reply whose label fields, where present, are strings or null, as the geocoding
  provider documents them. Only an awaited body is ever read by the handlers, so every
  other outcome is textual.
\<close>

fun text_or_null :: "'n json \<Rightarrow> bool" where
  "text_or_null JNull = True"
| "text_or_null (JStr s) = True"
| "text_or_null _ = False"

fun textual_reply :: "'n json \<Rightarrow> bool" where
  "textual_reply (JObj data) =
     (text_or_null (dict_get data ''display_name'') \<and>
      (case map_of data ''address'' of
         Some (JObj address) \<Rightarrow>
           list_all (\<lambda>k. text_or_null (dict_get address k))
             [''suburb'', ''village'', ''town'', ''city'', ''county'', ''state'']
       | _ \<Rightarrow> True))"
| "textual_reply _ = True"

fun textual_outcome :: "'n http_outcome \<Rightarrow> bool" where
  "textual_outcome (Response st (JsonAwaitable (Some v))) = textual_reply v"
| "textual_outcome _ = True"

definition nonempty_text :: "'n json \<Rightarrow> bool" where
  "nonempty_text v = (case v of JStr s \<Rightarrow> s \<noteq> [] | _ \<Rightarrow> False)"

section \<open>Concrete inputs\<close>

text \<open>
  An interpretation of the builtins for the examples: a number is carried as the
  decimal text Python prints for it, so that 12.34 is \<open>''12.34''\<close>. A text made of
  digits, with or without a minus sign, is an integer; any other text is a float.
\<close>

definition all_digits :: "string \<Rightarrow> bool" where
  "all_digits s = (s \<noteq> [] \<and> list_all (\<lambda>c. c \<in> set ''0123456789'') s)"

definition nat_of_digits :: "string \<Rightarrow> nat" where
  "nat_of_digits s = foldl (\<lambda>a c. 10 * a + (of_char c - 48)) 0 s"

definition int_of_text :: "string \<Rightarrow> int option" where
  "int_of_text t =
     (case t of
        c # r \<Rightarrow>
          if c = CHR ''-'' then (if all_digits r then Some (- int (nat_of_digits r)) else None)
          else if all_digits t then Some (int (nat_of_digits t))
          else None
      | [] \<Rightarrow> None)"

definition text_builtins :: "string builtins" where
  "text_builtins =
     \<lparr> str_of = (\<lambda>v. case v of
                        JNum t \<Rightarrow> t
                      | JStr s \<Rightarrow> s
                      | JNull \<Rightarrow> ''None''
                      | JBool b \<Rightarrow> (if b then ''True'' else ''False'')
                      | _ \<Rightarrow> ''<container>''),
       nonzero = (\<lambda>t. t \<notin> {''0'', ''0.0'', ''-0.0''}),
       bson_number = (\<lambda>t. case int_of_text t of
                        None \<Rightarrow> True
                      | Some i \<Rightarrow> - (2 ^ 63) \<le> i \<and> i < 2 ^ 63) \<rparr>"

text \<open>The geocoder's reply of the specification's example: only city and state.\<close>

definition springfield :: "string json" where
  "springfield =
     JObj [(''address'', JObj [(''city'', JStr ''Springfield''), (''state'', JStr ''Illinois'')])]"

definition stored :: "string json \<Rightarrow> int \<Rightarrow> string json option \<Rightarrow> string position_doc" where
  "stored vid t live =
     \<lparr> vehicle_id = vid, latitude = JNum ''12.34'', longitude = JNum ''56.78'',
       timestamp = t, live_location = live \<rparr>"

text \<open>
  A collection with five positions of the vehicle \<open>bus\<close> pushed through the update
  path, one legacy position of \<open>van\<close> with an empty label, and one position of vehicle 7
  written by the submit path.
\<close>

definition fleet :: "string store" where
  "fleet =
     [stored (JStr ''bus'') 10 None, stored (JStr ''bus'') 50 None, stored (JStr ''bus'') 20 None,
      stored (JStr ''van'') 15 (Some (JStr [])), stored (JStr ''bus'') 40 None,
      stored (JNum ''7'') 99 (Some (JStr ''Springfield'')), stored (JStr ''bus'') 30 None]"

section \<open>The label computed by the geocoding step\<close>

lemma coordinate_label_nonempty: "coordinate_label py lat lon \<noteq> []"
  by (simp add: coordinate_label_def)

lemma truthy_py_or: "truthy py b \<Longrightarrow> truthy py (py_or py a b)"
  by (simp add: py_or_def)

lemma truthy_save_position_live_location:
  "truthy py (save_position_live_location py http_get lat lon)"
  unfolding save_position_live_location_def
  by (auto split: http_outcome.split sum.split json.split option.split
           simp: coordinate_label_nonempty truthy_py_or)

text \<open>The two copies of the geocoding step differ in the timeout only.\<close>

lemma get_latest_live_location_eq:
  "get_latest_live_location py http_get lat lon =
     save_position_live_location py (\<lambda>t. http_get 5) lat lon"
  by (simp add: get_latest_live_location_def save_position_live_location_def)

lemma nonempty_text_py_or:
  "text_or_null a \<Longrightarrow> nonempty_text b \<Longrightarrow> nonempty_text (py_or py a b)"
  by (cases a) (auto simp: py_or_def nonempty_text_def)

lemma nonempty_text_label: "nonempty_text (JStr (coordinate_label py lat lon))"
  by (simp add: nonempty_text_def coordinate_label_nonempty)

lemma nonempty_text_save_position_live_location:
  assumes "textual_outcome (http_get 10 (nominatim_url py lat lon))"
  shows "nonempty_text (save_position_live_location py http_get lat lon)"
proof (cases "http_get 10 (nominatim_url py lat lon)")
  case GetRaises
  then show ?thesis by (simp add: save_position_live_location_def nonempty_text_label)
next
  case (Response st body)
  show ?thesis
  proof (cases "await_json body")
    case (Inl e)
    with Response show ?thesis
      by (simp add: save_position_live_location_def nonempty_text_label)
  next
    case (Inr v)
    then have body: "body = JsonAwaitable (Some v)"
      by (cases body rule: await_json.cases) auto
    with assms Response have tv: "textual_reply v" by simp
    show ?thesis
    proof (cases v)
      case (JObj data)
      show ?thesis
      proof (cases "map_of data ''address''")
        case None
        with tv JObj Response Inr show ?thesis
          by (simp add: save_position_live_location_def nonempty_text_label
                nonempty_text_py_or dict_get_def)
      next
        case (Some a)
        with tv JObj Response Inr show ?thesis
          by (cases a)
             (simp_all add: save_position_live_location_def nonempty_text_label
                nonempty_text_py_or)
      qed
    qed (use Response Inr in
          \<open>simp_all add: save_position_live_location_def nonempty_text_label\<close>)
  qed
qed

text \<open>
  What the chain of \<open>or\<close> computes once the body has been awaited: the first truthy
  value among suburb, village, town, city, county, state and display_name, in this
  order, and the coordinate label when there is none.
\<close>

lemma awaited_reply_first_truthy:
  assumes "http_get 10 (nominatim_url py lat lon) = Response 200 (JsonAwaitable (Some (JObj data)))"
    and "(case map_of data ''address'' of None \<Rightarrow> JObj [] | Some a \<Rightarrow> a) = JObj address"
  shows "save_position_live_location py http_get lat lon =
     (case filter (truthy py)
             (map (dict_get address)
                [''suburb'', ''village'', ''town'', ''city'', ''county'', ''state'']
              @ [dict_get data ''display_name'']) of
        [] \<Rightarrow> JStr (coordinate_label py lat lon)
      | v # _ \<Rightarrow> v)"
  using assms by (simp add: save_position_live_location_def py_or_def)

text \<open>
  A value that \<open>resp.json()\<close> returns without an awaitable around it is never read:
  the \<open>await\<close> raises, and the handler stores the coordinate label.
\<close>

lemma plain_reply_not_read:
  assumes "http_get 10 (nominatim_url py lat lon) = Response st (JsonValue v)"
  shows "save_position_live_location py http_get lat lon = JStr (coordinate_label py lat lon)"
  using assms by (simp add: save_position_live_location_def)


lemmas text_number_defs = text_builtins_def int_of_text_def all_digits_def nat_of_digits_def




text \<open>
  C4. When the geocoding call fails (the request raises on a timeout or a transport
  failure, the status is not 200, or the body is malformed), the geocoding step of
  \<open>save_position\<close> yields exactly the string made of the text of the latitude, a comma
  and a space, and the text of the longitude. The step is a total function: no outcome
  makes it raise.
\<close>

theorem geocoding_failure_gives_coordinate_label:
  assumes "geocoding_failed (http_get 10 (nominatim_url py lat lon))"
  shows "save_position_live_location py http_get lat lon =
           JStr (str_of py lat @ '', '' @ str_of py lon)"
  using assms unfolding save_position_live_location_def coordinate_label_def
  by (cases "http_get 10 (nominatim_url py lat lon)" rule: geocoding_failed.cases)
     (auto split: json.splits option.splits)

text \<open>The example of the specification: the endpoint answers 503 for (12.34, 56.78).\<close>

theorem geocoding_failure_gives_coordinate_label_witness:
  "geocoding_failed (Response 503 JsonRaises :: string http_outcome)
   \<and> save_position_live_location text_builtins (\<lambda>t u. Response 503 JsonRaises)
        (JNum ''12.34'') (JNum ''56.78'') = JStr ''12.34, 56.78''"
proof -
  have failed: "geocoding_failed ((\<lambda>t u. Response 503 JsonRaises :: string http_outcome) 10
                  (nominatim_url text_builtins (JNum ''12.34'') (JNum ''56.78'')))"
    by simp
  from geocoding_failure_gives_coordinate_label [OF failed]
  show ?thesis by (simp add: text_builtins_def)
qed

text \<open>Every outcome the HTTP client itself produces is textual.\<close>

lemma network_outcomes_textual:
  "textual_outcome GetRaises \<and> textual_outcome (Response st JsonRaises)
   \<and> textual_outcome (Response st (JsonValue v))"
  by simp

text \<open>
  C9. For every pair of coordinates and every outcome of the geocoding call, the label
  computed by the geocoding step is never the empty string. It is a non-empty string for
  every outcome of the network (a raised error, any status, a body that is not JSON, a
  parsed body), and more generally whenever the label fields of an awaited body are
  strings or null.
\<close>

theorem live_location_is_nonempty_text:
  "save_position_live_location py http_get lat lon \<noteq> JStr []
   \<and> (textual_outcome (http_get 10 (nominatim_url py lat lon)) \<longrightarrow>
        (\<exists>s. save_position_live_location py http_get lat lon = JStr s \<and> s \<noteq> []))"
proof
  have "truthy py (save_position_live_location py http_get lat lon)"
    by (rule truthy_save_position_live_location)
  then show "save_position_live_location py http_get lat lon \<noteq> JStr []" by auto
next
  show "textual_outcome (http_get 10 (nominatim_url py lat lon)) \<longrightarrow>
        (\<exists>s. save_position_live_location py http_get lat lon = JStr s \<and> s \<noteq> [])"
  proof
    assume "textual_outcome (http_get 10 (nominatim_url py lat lon))"
    then have "nonempty_text (save_position_live_location py http_get lat lon)"
      by (rule nonempty_text_save_position_live_location)
    then show "\<exists>s. save_position_live_location py http_get lat lon = JStr s \<and> s \<noteq> []"
      by (cases "save_position_live_location py http_get lat lon")
         (simp_all add: nonempty_text_def)
  qed
qed

text \<open>The same for a reply with status 200 whose parsed body holds only empty strings.\<close>

theorem live_location_is_nonempty_text_witness:
  "textual_outcome (Response 200 (JsonValue (JObj [(''address'', JObj [(''city'', JStr [])]),
       (''display_name'', JStr [])])) :: string http_outcome)
   \<and> save_position_live_location text_builtins
        (\<lambda>t u. Response 200 (JsonValue (JObj [(''address'', JObj [(''city'', JStr [])]),
           (''display_name'', JStr [])])))
        (JNum ''12.34'') (JNum ''56.78'') \<noteq> JStr []
   \<and> (\<exists>s. save_position_live_location text_builtins
        (\<lambda>t u. Response 200 (JsonValue (JObj [(''address'', JObj [(''city'', JStr [])]),
           (''display_name'', JStr [])])))
        (JNum ''12.34'') (JNum ''56.78'') = JStr s \<and> s \<noteq> [])"
proof -
  let ?get = "\<lambda>(t::nat) (u::string). Response 200 (JsonValue (JObj [(''address'',
     JObj [(''city'', JStr [])]), (''display_name'', JStr [])])) :: string http_outcome"
  have textual: "textual_outcome (?get 10 (nominatim_url text_builtins (JNum ''12.34'')
     (JNum ''56.78'')))"
    by simp
  from live_location_is_nonempty_text [of text_builtins ?get "JNum ''12.34''" "JNum ''56.78''"]
    textual
  show ?thesis by simp
qed

text \<open>
  C3. The claim: when the geocoding call succeeds with a parsable response, the label
  is the first non-empty value among suburb, village, town, city, county, state and the
  display name, so that a reply with only city Springfield and state Illinois gives
  Springfield. The code at that reply: the client library hands the parsed body over as
  a plain value, \<open>await resp.json()\<close> raises, and the label stored is the coordinate
  label, not Springfield.
\<close>

theorem springfield_reply_gives_coordinate_label:
  "save_position_live_location text_builtins (\<lambda>t u. Response 200 (JsonValue springfield))
     (JNum ''39.78'') (JNum ''-89.65'') = JStr ''39.78, -89.65''"
  by (simp add: save_position_live_location_def coordinate_label_def text_builtins_def)

text \<open>Had the body been awaitable, the chain would have picked the city.\<close>

lemma springfield_awaited_gives_city:
  "save_position_live_location text_builtins
     (\<lambda>t u. Response 200 (JsonAwaitable (Some springfield)))
     (JNum ''39.78'') (JNum ''-89.65'') = JStr ''Springfield''"
  by (simp add: save_position_live_location_def coordinate_label_def text_builtins_def
        springfield_def py_or_def dict_get_def)

section \<open>What the write paths store\<close>

text \<open>
  The update path stores a document without \<open>live_location\<close>: after one accepted push
  on an empty collection, the only document has none.
\<close>

theorem update_position_stores_no_live_location:
  "update_position text_builtins 7 ''bus''
     (Some (JObj [(''position'', JList [JNum ''12.34'', JNum ''56.78''])])) [] =
   (Ok200 ''Position updated'',
    [\<lparr> vehicle_id = JStr ''bus'', latitude = JNum ''12.34'', longitude = JNum ''56.78'',
       timestamp = 7, live_location = None \<rparr>])"
  by (simp add: update_position_def dict_get_def insert_one_def text_number_defs)

text \<open>
  C1, amended. Every document persisted by \<open>POST /positions/\<close> has a \<open>live_location\<close>
  that is present, truthy and not the empty string, whatever the outcome of the
  geocoding call: the request either succeeds and appends one such document, or fails
  and leaves the collection as it was. Every document persisted by
  \<open>POST /positions/update/{vehicle_id}\<close> has no \<open>live_location\<close>.
\<close>

theorem save_position_stores_live_location:
  "(\<forall>r store'. save_position py http_get now position store = (r, store') \<longrightarrow>
       (if r = Ok200 ''Position saved successfully''
        then \<exists>doc v. store' = store @ [doc]
               \<and> live_location doc = Some v \<and> truthy py v \<and> v \<noteq> JStr []
        else store' = store))
   \<and> (\<forall>r store'. update_position py now' vid body store = (Ok200 r, store') \<longrightarrow>
         (\<exists>doc. store' = store @ [doc] \<and> live_location doc = None))"
proof
  have label: "truthy py (save_position_live_location py http_get (JNum (vp_latitude position))
          (JNum (vp_longitude position)))"
    by (rule truthy_save_position_live_location)
  then have "save_position_live_location py http_get (JNum (vp_latitude position))
          (JNum (vp_longitude position)) \<noteq> JStr []"
    by auto
  with label
  show "\<forall>r store'. save_position py http_get now position store = (r, store') \<longrightarrow>
       (if r = Ok200 ''Position saved successfully''
        then \<exists>doc v. store' = store @ [doc]
               \<and> live_location doc = Some v \<and> truthy py v \<and> v \<noteq> JStr []
        else store' = store)"
    by (auto simp: save_position_def insert_one_def Let_def split: if_splits)
next
  show "\<forall>r store'. update_position py now' vid body store = (Ok200 r, store') \<longrightarrow>
         (\<exists>doc. store' = store @ [doc] \<and> live_location doc = None)"
    by (auto simp: update_position_def insert_one_def Let_def
             split: option.splits json.splits list.splits if_splits)
qed

text \<open>
  The same at a submit whose geocoding call times out and at an accepted update, both on
  an empty collection.
\<close>

theorem save_position_stores_live_location_witness:
  "fst (save_position text_builtins (\<lambda>t u. GetRaises) 60
        \<lparr> vp_vehicle_id = ''7'', vp_latitude = ''12.34'', vp_longitude = ''56.78'',
          vp_timestamp = None \<rparr> []) = Ok200 ''Position saved successfully''
   \<and> (\<exists>doc v. snd (save_position text_builtins (\<lambda>t u. GetRaises) 60
        \<lparr> vp_vehicle_id = ''7'', vp_latitude = ''12.34'', vp_longitude = ''56.78'',
          vp_timestamp = None \<rparr> []) = [] @ [doc]
       \<and> live_location doc = Some v \<and> truthy text_builtins v \<and> v \<noteq> JStr [])
   \<and> update_position text_builtins 7 ''bus''
        (Some (JObj [(''position'', JList [JNum ''12.34'', JNum ''56.78''])])) [] =
      (Ok200 ''Position updated'',
       [\<lparr> vehicle_id = JStr ''bus'', latitude = JNum ''12.34'', longitude = JNum ''56.78'',
          timestamp = 7, live_location = None \<rparr>])
   \<and> (\<exists>doc. [\<lparr> vehicle_id = JStr ''bus'', latitude = JNum ''12.34'',
                 longitude = JNum ''56.78'', timestamp = 7, live_location = None \<rparr>] = [] @ [doc]
          \<and> live_location doc = None)"
proof -
  let ?body = "Some (JObj [(''position'', JList [JNum ''12.34'', JNum ''56.78''])])"
  let ?doc = "\<lparr> vehicle_id = JStr ''bus'', latitude = JNum ''12.34'',
                 longitude = JNum ''56.78'', timestamp = 7, live_location = None \<rparr>"
  let ?p = "\<lparr> vp_vehicle_id = ''7'', vp_latitude = ''12.34'', vp_longitude = ''56.78'',
          vp_timestamp = None \<rparr>"
  let ?saved = "save_position text_builtins (\<lambda>t u. GetRaises) 60 ?p []"
  have pushed: "update_position text_builtins 7 ''bus'' ?body [] = (Ok200 ''Position updated'', [?doc])"
    by (simp add: update_position_def dict_get_def insert_one_def text_number_defs)
  have accepted: "fst ?saved = Ok200 ''Position saved successfully''"
    by (simp add: save_position_def insert_one_def save_position_live_location_def
          text_number_defs)
  note both = save_position_stores_live_location
    [of text_builtins "\<lambda>t u. GetRaises" 60 ?p "[]" 7 "''bus''" ?body]
  from both [THEN conjunct1] accepted
  have "\<exists>doc v. snd ?saved = [] @ [doc]
       \<and> live_location doc = Some v \<and> truthy text_builtins v \<and> v \<noteq> JStr []"
    by (cases ?saved) auto
  moreover from both [THEN conjunct2] pushed
  have "\<exists>doc. [?doc] = [] @ [doc] \<and> live_location doc = None"
    by blast
  ultimately show ?thesis using pushed accepted by blast
qed

text \<open>
  The update path accepts a pair of strings and stores it, and a body that is a JSON
  list ends in an unhandled AttributeError, not in the 400 reply.
\<close>

theorem update_position_accepts_non_numeric_pair:
  "update_position text_builtins 7 ''bus''
     (Some (JObj [(''position'', JList [JStr ''a'', JStr ''b''])])) [] =
   (Ok200 ''Position updated'',
    [\<lparr> vehicle_id = JStr ''bus'', latitude = JStr ''a'', longitude = JStr ''b'',
       timestamp = 7, live_location = None \<rparr>])
   \<and> update_position text_builtins 7 ''bus'' (Some (JList [JNum ''1'', JNum ''2''])) [] =
       (Unhandled AttributeError, [])"
  by (simp add: update_position_def dict_get_def insert_one_def)

text \<open>
  C5, amended. For every request to \<open>POST /positions/update/{vehicle_id}\<close> whose JSON
  body is an object and whose \<open>position\<close> is not a list of exactly two elements (it is
  missing, null, not a list, or a list of another length), the reply is the 400 error
  with the message of the code and the collection is unchanged. The elements of the pair
  are not inspected.
\<close>

theorem update_position_rejects_non_pair:
  assumes "body = Some (JObj data)"
    and "\<not> (\<exists>p0 p1. map_of data ''position'' = Some (JList [p0, p1]))"
  shows "update_position py now vid body store =
           (HTTPException 400 ''Invalid position format. Expected [lat, lon].'', store)"
proof (cases "dict_get data ''position''")
  case (JList xs)
  with assms(2) have "length xs \<noteq> 2"
    by (auto simp: dict_get_def length_Suc_conv numeral_2_eq_2 split: option.splits)
  with JList assms(1) show ?thesis by (simp add: update_position_def)
qed (use assms(1) in \<open>simp_all add: update_position_def\<close>)

text \<open>The example of the specification: a position of three numbers.\<close>

theorem update_position_rejects_non_pair_witness:
  "Some (JObj [(''position'', JList [JNum ''1'', JNum ''2'', JNum ''3''])]) =
      Some (JObj [(''position'', JList [JNum ''1'', JNum ''2'', JNum ''3''])])
   \<and> \<not> (\<exists>p0 p1. map_of [(''position'', JList [JNum ''1'', JNum ''2'', JNum ''3''])] ''position''
          = Some (JList [p0, p1]))
   \<and> update_position text_builtins 7 ''bus''
       (Some (JObj [(''position'', JList [JNum ''1'', JNum ''2'', JNum ''3''])])) fleet =
       (HTTPException 400 ''Invalid position format. Expected [lat, lon].'', fleet)"
proof -
  let ?data = "[(''position'', JList [JNum ''1'', JNum ''2'', JNum ''3''])]"
  have shape: "\<not> (\<exists>p0 p1. map_of ?data ''position'' = Some (JList [p0, p1]))"
    by simp
  from update_position_rejects_non_pair [OF refl shape, of text_builtins 7 "''bus''" fleet] shape
  show ?thesis by simp
qed

section \<open>The read paths\<close>

lemma sort_timestamp_desc_sorted:
  "sorted_wrt (\<lambda>a b. timestamp b \<le> timestamp a) (sort_timestamp_desc ds)"
proof -
  have "sorted (map (\<lambda>d. - timestamp d) (sort_timestamp_desc ds))"
    unfolding sort_timestamp_desc_def by (rule sorted_sort_key)
  then show ?thesis by (simp add: sorted_map)
qed

lemma find_one_latest_None:
  "find_one_latest vid store = None \<longleftrightarrow> find_vehicle vid store = []"
proof -
  have "length (sort_timestamp_desc (find_vehicle vid store)) = length (find_vehicle vid store)"
    by (simp add: sort_timestamp_desc_def)
  then show ?thesis
    by (cases "sort_timestamp_desc (find_vehicle vid store)";
        cases "find_vehicle vid store") (auto simp: find_one_latest_def)
qed

lemma find_one_latest_Some:
  assumes "find_one_latest vid store = Some pos"
  shows "pos \<in> set store" "vehicle_id pos = JStr vid"
    "\<forall>d\<in>set store. vehicle_id d = JStr vid \<longrightarrow> timestamp d \<le> timestamp pos"
proof -
  from assms obtain rest where s: "sort_timestamp_desc (find_vehicle vid store) = pos # rest"
    by (auto simp: find_one_latest_def split: list.splits)
  have set_eq: "set (sort_timestamp_desc (find_vehicle vid store)) = set (find_vehicle vid store)"
    by (simp add: sort_timestamp_desc_def)
  with s have mem: "pos \<in> set (find_vehicle vid store)" by auto
  then show "pos \<in> set store" "vehicle_id pos = JStr vid" by (auto simp: find_vehicle_def)
  from sort_timestamp_desc_sorted [of "find_vehicle vid store"] s
  have "\<forall>d\<in>set rest. timestamp d \<le> timestamp pos" by simp
  with s set_eq have "\<forall>d\<in>set (find_vehicle vid store). timestamp d \<le> timestamp pos"
    by (metis order_refl set_ConsD)
  then show "\<forall>d\<in>set store. vehicle_id d = JStr vid \<longrightarrow> timestamp d \<le> timestamp pos"
    by (simp add: find_vehicle_def)
qed

lemma older_after_cut:
  assumes "sorted_wrt (\<lambda>a b. timestamp b \<le> timestamp a) (ds :: 'n position_doc list)"
  shows "\<forall>d\<in>set (drop k ds). \<forall>x\<in>set (take k ds). timestamp d \<le> timestamp x"
proof -
  from assms have "sorted_wrt (\<lambda>a b. timestamp b \<le> timestamp a) (take k ds @ drop k ds)"
    by simp
  then show ?thesis unfolding sorted_wrt_append by blast
qed

lemma insort_key_map:
  "insort_key k (f x) (map f xs) = map f (insort_key (\<lambda>y. k (f y)) x xs)"
  by (induction xs) auto

lemma sort_key_map: "sort_key k (map f xs) = map f (sort_key (\<lambda>y. k (f y)) xs)"
  by (induction xs) (auto simp: insort_key_map)

text \<open>A change of the documents that keeps vehicle and timestamp keeps the selection.\<close>

lemma find_one_latest_map:
  assumes "\<And>d. vehicle_id (f d) = vehicle_id d" and "\<And>d. timestamp (f d) = timestamp d"
  shows "find_one_latest vid (map f store) = map_option f (find_one_latest vid store)"
proof -
  have "find_vehicle vid (map f store) = map f (find_vehicle vid store)"
    by (simp add: find_vehicle_def filter_map comp_def assms)
  then have "sort_timestamp_desc (find_vehicle vid (map f store))
               = map f (sort_timestamp_desc (find_vehicle vid store))"
    by (simp add: sort_timestamp_desc_def sort_key_map assms)
  then show ?thesis
    by (simp add: find_one_latest_def split: list.splits)
qed

text \<open>
  The path parameter is a string and the submit path stores the vehicle identifier as a
  number, so a position written by \<open>POST /positions/\<close> for vehicle 7 is not among the
  positions that the read paths find for \<open>7\<close>.
\<close>

lemma submitted_position_not_found:
  "stored (JNum ''7'') 99 (Some (JStr ''Springfield'')) \<in> set fleet
   \<and> find_vehicle ''7'' fleet = []"
  by (simp add: find_vehicle_def fleet_def stored_def)

text \<open>
  What \<open>GET /positions/latest/{vehicle_id}\<close> does with the documents whose stored
  vehicle identifier is the string of the path: 404 when there is none, and otherwise
  one of them with the greatest timestamp, with its stored label when that is truthy and
  the label of the geocoding step when it is not. The collection is unchanged.
\<close>

lemma get_latest_position_by_path_string:
  "((\<forall>d\<in>set store. vehicle_id d \<noteq> JStr vid) \<longrightarrow>
      get_latest_position py http_get vid store =
        (HTTPException 404 ''No positions found for this vehicle'', store))
   \<and> ((\<exists>d\<in>set store. vehicle_id d = JStr vid) \<longrightarrow>
      (\<exists>pos. pos \<in> set store \<and> vehicle_id pos = JStr vid
         \<and> (\<forall>d\<in>set store. vehicle_id d = JStr vid \<longrightarrow> timestamp d \<le> timestamp pos)
         \<and> get_latest_position py http_get vid store =
             (Ok200 (pos \<lparr> live_location := Some
                (case live_location pos of
                   None \<Rightarrow> get_latest_live_location py http_get (latitude pos) (longitude pos)
                 | Some v \<Rightarrow>
                     if truthy py v then v
                     else get_latest_live_location py http_get (latitude pos) (longitude pos))
                \<rparr>), store)))"
proof (intro conjI impI)
  assume "\<forall>d\<in>set store. vehicle_id d \<noteq> JStr vid"
  then have "find_vehicle vid store = []" by (simp add: find_vehicle_def filter_empty_conv)
  then have "find_one_latest vid store = None" by (simp add: find_one_latest_None)
  then show "get_latest_position py http_get vid store =
        (HTTPException 404 ''No positions found for this vehicle'', store)"
    by (simp add: get_latest_position_def)
next
  assume "\<exists>d\<in>set store. vehicle_id d = JStr vid"
  then have "find_vehicle vid store \<noteq> []" by (auto simp: find_vehicle_def filter_empty_conv)
  then obtain pos where p: "find_one_latest vid store = Some pos"
    using find_one_latest_None [of vid store] by (cases "find_one_latest vid store") auto
  have "get_latest_position py http_get vid store =
             (Ok200 (pos \<lparr> live_location := Some
                (case live_location pos of
                   None \<Rightarrow> get_latest_live_location py http_get (latitude pos) (longitude pos)
                 | Some v \<Rightarrow>
                     if truthy py v then v
                     else get_latest_live_location py http_get (latitude pos) (longitude pos))
                \<rparr>), store)"
    using p by (simp add: get_latest_position_def Let_def split: option.splits)
  with find_one_latest_Some [OF p]
  show "\<exists>pos. pos \<in> set store \<and> vehicle_id pos = JStr vid
         \<and> (\<forall>d\<in>set store. vehicle_id d = JStr vid \<longrightarrow> timestamp d \<le> timestamp pos)
         \<and> get_latest_position py http_get vid store =
             (Ok200 (pos \<lparr> live_location := Some
                (case live_location pos of
                   None \<Rightarrow> get_latest_live_location py http_get (latitude pos) (longitude pos)
                 | Some v \<Rightarrow>
                     if truthy py v then v
                     else get_latest_live_location py http_get (latitude pos) (longitude pos))
                \<rparr>), store)"
    by blast
qed

text \<open>
  C8. The claim: a vehicle without a stored position gets the 404 error from
  \<open>GET /positions/latest/{vehicle_id}\<close>, and a vehicle with at least one stored
  position gets the one with the greatest timestamp. The code after a position of
  vehicle 7 has been submitted through \<open>POST /positions/\<close> and stored: the submit path
  stores the identifier as the integer 7, the read path looks for the string of the path,
  and the request for vehicle 7 ends in the 404 error although the position is in the
  collection. The update path stores the string, and its positions are found.
\<close>

theorem submitted_position_latest_is_404:
  "save_position text_builtins (\<lambda>t u. GetRaises) 60
     \<lparr> vp_vehicle_id = ''7'', vp_latitude = ''12.34'', vp_longitude = ''56.78'',
       vp_timestamp = None \<rparr> [] =
     (Ok200 ''Position saved successfully'',
      [stored (JNum ''7'') 60 (Some (JStr ''12.34, 56.78''))])
   \<and> get_latest_position text_builtins (\<lambda>t u. GetRaises) ''7''
        [stored (JNum ''7'') 60 (Some (JStr ''12.34, 56.78''))] =
     (HTTPException 404 ''No positions found for this vehicle'',
      [stored (JNum ''7'') 60 (Some (JStr ''12.34, 56.78''))])
   \<and> get_positions ''7'' None [stored (JNum ''7'') 60 (Some (JStr ''12.34, 56.78''))] =
     (Ok200 [], [stored (JNum ''7'') 60 (Some (JStr ''12.34, 56.78''))])"
  by (simp add: save_position_def insert_one_def save_position_live_location_def
        coordinate_label_def get_latest_position_def find_one_latest_def find_vehicle_def
        sort_timestamp_desc_def get_positions_def cursor_limit_def stored_def
        text_number_defs)

text \<open>The same request after a push through the update path finds the position.\<close>

lemma pushed_position_latest_is_found:
  "update_position text_builtins 60 ''7''
     (Some (JObj [(''position'', JList [JNum ''12.34'', JNum ''56.78''])])) [] =
     (Ok200 ''Position updated'', [stored (JStr ''7'') 60 None])
   \<and> get_latest_position text_builtins (\<lambda>t u. GetRaises) ''7'' [stored (JStr ''7'') 60 None] =
     (Ok200 (stored (JStr ''7'') 60 (Some (JStr ''12.34, 56.78''))),
      [stored (JStr ''7'') 60 None])"
  by (simp add: update_position_def dict_get_def insert_one_def get_latest_position_def
        get_latest_live_location_def coordinate_label_def find_one_latest_def
        find_vehicle_def sort_timestamp_desc_def stored_def text_number_defs)

text \<open>
  C6. When the latest stored position of the vehicle lacks a \<open>live_location\<close>,
  \<open>GET /positions/latest/{vehicle_id}\<close> replies with that position and a label computed
  by the very steps of the submit path, run on the outcome of a request with the timeout
  of 5 instead of 10. The collection is returned unchanged, so a second read finds the
  position without a label again and computes it anew from the outcome of its own
  request.
\<close>

theorem get_latest_position_backfills_without_writing:
  assumes "find_one_latest vid store = Some pos" and "live_location pos = None"
  shows "get_latest_position py http_get vid store =
           (Ok200 (pos \<lparr> live_location :=
               Some (save_position_live_location py (\<lambda>t. http_get 5)
                       (latitude pos) (longitude pos)) \<rparr>),
            store)
       \<and> get_latest_position py http_get' vid (snd (get_latest_position py http_get vid store)) =
           (Ok200 (pos \<lparr> live_location :=
               Some (save_position_live_location py (\<lambda>t. http_get' 5)
                       (latitude pos) (longitude pos)) \<rparr>),
            store)"
  using assms by (simp add: get_latest_position_def get_latest_live_location_eq)

text \<open>
  On the example collection: a first read while the geocoder answers 503 and a second
  one while it times out; both reply with the coordinate label.
\<close>

theorem get_latest_position_backfills_without_writing_witness:
  "find_one_latest ''bus'' fleet = Some (stored (JStr ''bus'') 50 None)
   \<and> live_location (stored (JStr ''bus'') 50 None) = None
   \<and> get_latest_position text_builtins (\<lambda>t u. Response 503 JsonRaises) ''bus'' fleet =
       (Ok200 (stored (JStr ''bus'') 50 (Some (JStr ''12.34, 56.78''))), fleet)
   \<and> get_latest_position text_builtins (\<lambda>t u. GetRaises) ''bus''
       (snd (get_latest_position text_builtins (\<lambda>t u. Response 503 JsonRaises) ''bus'' fleet)) =
       (Ok200 (stored (JStr ''bus'') 50 (Some (JStr ''12.34, 56.78''))), fleet)"
proof -
  have latest: "find_one_latest ''bus'' fleet = Some (stored (JStr ''bus'') 50 None)"
    by (simp add: find_one_latest_def find_vehicle_def sort_timestamp_desc_def fleet_def
          stored_def)
  have lacking: "live_location (stored (JStr ''bus'') 50 None) = None"
    by (simp add: stored_def)
  have label: "\<And>g. g = (\<lambda>(t::nat) (u::string). Response 503 JsonRaises) \<or> g = (\<lambda>t u. GetRaises) \<Longrightarrow>
      save_position_live_location text_builtins g (JNum ''12.34'') (JNum ''56.78'')
        = JStr ''12.34, 56.78''"
    by (auto simp: save_position_live_location_def coordinate_label_def text_builtins_def)
  note reads = get_latest_position_backfills_without_writing
    [OF latest lacking, of text_builtins "\<lambda>t u. Response 503 JsonRaises" "\<lambda>t u. GetRaises"]
  have first: "get_latest_position text_builtins (\<lambda>t u. Response 503 JsonRaises) ''bus'' fleet =
       (Ok200 (stored (JStr ''bus'') 50 (Some (JStr ''12.34, 56.78''))), fleet)"
    using reads [THEN conjunct1] by (simp add: stored_def label)
  have second: "get_latest_position text_builtins (\<lambda>t u. GetRaises) ''bus''
       (snd (get_latest_position text_builtins (\<lambda>t u. Response 503 JsonRaises) ''bus'' fleet)) =
       (Ok200 (stored (JStr ''bus'') 50 (Some (JStr ''12.34, 56.78''))), fleet)"
    using reads [THEN conjunct2] by (simp add: stored_def label)
  from latest lacking first second show ?thesis by (intro conjI)
qed

text \<open>
  C10. When the latest stored position of the vehicle has a \<open>live_location\<close> equal to
  the empty string, \<open>GET /positions/latest/{vehicle_id}\<close> runs its geocoding step and
  replies with the label that step computes, which is never the empty string. The reply
  is the one the same request gets when the field is removed from that document.
\<close>

theorem get_latest_position_replaces_empty_label:
  assumes "find_one_latest vid store = Some pos" and "live_location pos = Some (JStr [])"
  shows "get_latest_position py http_get vid store =
           (Ok200 (pos \<lparr> live_location :=
               Some (get_latest_live_location py http_get (latitude pos) (longitude pos)) \<rparr>),
            store)
       \<and> fst (get_latest_position py http_get vid store) =
           fst (get_latest_position py http_get vid
             (map (\<lambda>d. if d = pos then pos \<lparr> live_location := None \<rparr> else d) store))
       \<and> get_latest_live_location py http_get (latitude pos) (longitude pos) \<noteq> JStr []"
proof -
  let ?f = "\<lambda>d. if d = pos then pos \<lparr> live_location := None \<rparr> else d"
  have "truthy py (get_latest_live_location py http_get (latitude pos) (longitude pos))"
    by (simp add: get_latest_live_location_eq truthy_save_position_live_location)
  then have ne: "get_latest_live_location py http_get (latitude pos) (longitude pos) \<noteq> JStr []"
    by auto
  have "find_one_latest vid (map ?f store) = map_option ?f (find_one_latest vid store)"
    by (rule find_one_latest_map) auto
  with assms(1) have "find_one_latest vid (map ?f store) = Some (pos \<lparr> live_location := None \<rparr>)"
    by simp
  with assms ne show ?thesis by (simp add: get_latest_position_def)
qed

text \<open>On the example collection: the position of \<open>van\<close>, while the geocoder times out.\<close>

theorem get_latest_position_replaces_empty_label_witness:
  "find_one_latest ''van'' fleet = Some (stored (JStr ''van'') 15 (Some (JStr [])))
   \<and> live_location (stored (JStr ''van'') 15 (Some (JStr []))) = Some (JStr [])
   \<and> get_latest_position text_builtins (\<lambda>t u. GetRaises) ''van'' fleet =
       (Ok200 (stored (JStr ''van'') 15 (Some (JStr ''12.34, 56.78''))), fleet)
   \<and> get_latest_live_location text_builtins (\<lambda>t u. GetRaises) (JNum ''12.34'') (JNum ''56.78'')
       \<noteq> JStr []"
proof -
  have latest: "find_one_latest ''van'' fleet = Some (stored (JStr ''van'') 15 (Some (JStr [])))"
    by (simp add: find_one_latest_def find_vehicle_def sort_timestamp_desc_def fleet_def
          stored_def)
  have empty: "live_location (stored (JStr ''van'') 15 (Some (JStr []))) = Some (JStr [])"
    by (simp add: stored_def)
  have label: "get_latest_live_location text_builtins (\<lambda>t u. GetRaises)
                 (JNum ''12.34'') (JNum ''56.78'') = JStr ''12.34, 56.78''"
    by (simp add: get_latest_live_location_def coordinate_label_def text_builtins_def)
  from get_latest_position_replaces_empty_label
    [OF latest empty, of text_builtins "\<lambda>t u. GetRaises"]
  show ?thesis using latest empty by (simp add: stored_def label)
qed

text \<open>
  With a limit of 0 the cursor is not limited: one stored position is returned, which
  is more than 0 entries.
\<close>

theorem get_positions_limit_zero_returns_all:
  "get_positions ''bus'' (Some 0) [stored (JStr ''bus'') 50 None] =
     (Ok200 [stored (JStr ''bus'') 50 None], [stored (JStr ''bus'') 50 None])"
  by (simp add: get_positions_def cursor_limit_def find_vehicle_def sort_timestamp_desc_def
        stored_def)

text \<open>
  C7, amended. For every vehicle identifier and every limit n from 1 up to the largest
  integer of 64 bits, \<open>GET /positions/{vehicle_id}\<close> returns stored positions whose
  stored vehicle identifier is the string of the request, each at most as often as it is
  stored, ordered by descending timestamp; their number is n when at least n such
  positions are stored and the number of such positions otherwise; no such position left
  out is newer than a returned one. Without a limit in the request the limit is 100. The
  collection is unchanged.
\<close>

theorem get_positions_newest_first:
  assumes "1 \<le> n" and "n < 2 ^ 63"
  shows "\<exists>xs. get_positions vid (Some n) store = (Ok200 xs, store)
           \<and> sorted_wrt (\<lambda>a b. timestamp b \<le> timestamp a) xs
           \<and> mset xs \<subseteq># mset (find_vehicle vid store)
           \<and> length xs = min (nat n) (length (find_vehicle vid store))
           \<and> (\<forall>d \<in># mset (find_vehicle vid store) - mset xs.
                 \<forall>x\<in>set xs. timestamp d \<le> timestamp x)
           \<and> get_positions vid None store = get_positions vid (Some 100) store"
proof -
  let ?s = "sort_timestamp_desc (find_vehicle vid store)"
  let ?xs = "take (nat n) ?s"
  have ms: "mset ?s = mset (find_vehicle vid store)" by (simp add: sort_timestamp_desc_def)
  have parts: "mset ?s = mset ?xs + mset (drop (nat n) ?s)"
    by (metis append_take_drop_id mset_append)
  have "\<not> 2 ^ 63 \<le> \<bar>n\<bar>" and "n \<noteq> 0" and "\<bar>n\<bar> = n"
    using assms by simp_all
  then have 1: "get_positions vid (Some n) store = (Ok200 ?xs, store)"
    by (simp add: get_positions_def cursor_limit_def)
  have 2: "sorted_wrt (\<lambda>a b. timestamp b \<le> timestamp a) ?xs"
    by (rule sorted_wrt_take) (rule sort_timestamp_desc_sorted)
  have 3: "mset ?xs \<subseteq># mset (find_vehicle vid store)"
    using parts ms by (metis mset_subset_eq_add_left)
  have 4: "length ?xs = min (nat n) (length (find_vehicle vid store))"
    by (simp add: sort_timestamp_desc_def min.commute)
  have rest: "mset (find_vehicle vid store) - mset ?xs = mset (drop (nat n) ?s)"
    using parts ms by (metis add_diff_cancel_left')
  have 5: "\<forall>d \<in># mset (find_vehicle vid store) - mset ?xs.
             \<forall>x\<in>set ?xs. timestamp d \<le> timestamp x"
    unfolding rest
    using older_after_cut [OF sort_timestamp_desc_sorted, of "nat n" "find_vehicle vid store"]
    by simp
  have 6: "get_positions vid None store = get_positions vid (Some 100) store"
    by (simp add: get_positions_def)
  from 1 2 3 4 5 6 show ?thesis by blast
qed

text \<open>
  The example of the specification: five stored positions of \<open>bus\<close> and a limit of 2
  give the two newest, the newer one first.
\<close>

theorem get_positions_newest_first_witness:
  "(1::int) \<le> 2 \<and> (2::int) < 2 ^ 63
   \<and> get_positions ''bus'' (Some 2) fleet =
       (Ok200 [stored (JStr ''bus'') 50 None, stored (JStr ''bus'') 40 None], fleet)
   \<and> length (find_vehicle ''bus'' fleet) = 5
   \<and> (\<exists>xs. get_positions ''bus'' (Some 2) fleet = (Ok200 xs, fleet)
           \<and> sorted_wrt (\<lambda>a b. timestamp b \<le> timestamp a) xs
           \<and> mset xs \<subseteq># mset (find_vehicle ''bus'' fleet)
           \<and> length xs = min (nat 2) (length (find_vehicle ''bus'' fleet))
           \<and> (\<forall>d \<in># mset (find_vehicle ''bus'' fleet) - mset xs.
                 \<forall>x\<in>set xs. timestamp d \<le> timestamp x)
           \<and> get_positions ''bus'' None fleet = get_positions ''bus'' (Some 100) fleet)"
proof -
  have limit: "(1::int) \<le> 2" by simp
  have small: "(2::int) < 2 ^ 63" by simp
  have two: "get_positions ''bus'' (Some 2) fleet =
       (Ok200 [stored (JStr ''bus'') 50 None, stored (JStr ''bus'') 40 None], fleet)"
    by (simp add: get_positions_def cursor_limit_def find_vehicle_def sort_timestamp_desc_def
          fleet_def stored_def)
  have five: "length (find_vehicle ''bus'' fleet) = 5"
    by (simp add: find_vehicle_def fleet_def stored_def)
  from limit small two five get_positions_newest_first [OF limit small, of "''bus''" fleet]
  show ?thesis by (intro conjI)
qed

end
